theory Spec2Isabelle
  imports Main "HOL-Library.AList"
begin

section \<open>Documents and the filter language\<close>

text \<open>
  A stored record is a document: an ordered list of fields with scalar values.  A field
  that is not in the list is absent; a field can also be present with the value null.
  Numbers are the integers the plugins write (Unix seconds).
\<close>

datatype bson = BNull | BBool bool | BNum int | BStr string

type_synonym doc = "(string \<times> bson) list"

text \<open>
  A filter object is the list of its own keys with their conditions.  A key is either a
  field name with a condition on that field, or one of the operators \<open>$and\<close> / \<open>$or\<close>
  with an array of filter objects.  The conditions on a field are the ones the plugin
  builds (\<open>{ f: v }\<close>, \<open>{ f: { $exists: b } }\<close>, \<open>{ f: { $type: t } }\<close>) and, for the
  caller's filters, \<open>$ne\<close> and \<open>$in\<close>.
\<close>

datatype fieldcond =
    Equals bson
  | Exists bool
  | TypeOf string
  | NotEquals bson
  | OneOf "bson list"

datatype clause =
    FieldCond string fieldcond
  | AndOf "clause list list"
  | OrOf "clause list list"

type_synonym filter = "clause list"

text \<open>\<open>Object.keys\<close> of a filter object.\<close>

fun key_of :: "clause \<Rightarrow> string" where
  "key_of (FieldCond k c) = k"
| "key_of (AndOf fs) = ''$and''"
| "key_of (OrOf fs) = ''$or''"

definition keys :: "filter \<Rightarrow> string list" where
  "keys f = map key_of f"

text \<open>
  The meaning of a filter is the one of the database the plugin talks to: \<open>{ f: null }\<close>
  selects the documents where \<open>f\<close> is null or absent, \<open>{ f: v }\<close> for another \<open>v\<close> the
  ones where \<open>f\<close> is present and equal to \<open>v\<close>, \<open>$exists\<close> tests presence, and \<open>$type\<close>
  tests that the field is present with a value of the named type.  The keys of one
  filter object are conjoined.  The database is not part of the repository; the clauses
  below follow its documented behaviour on this fragment.
\<close>

fun type_matches :: "string \<Rightarrow> bson \<Rightarrow> bool" where
  "type_matches t BNull = (t = ''null'')"
| "type_matches t (BBool b) = (t = ''bool'')"
| "type_matches t (BNum n) = (t = ''number'')"
| "type_matches t (BStr s) = (t = ''string'')"

fun equals_matches :: "bson \<Rightarrow> bson option \<Rightarrow> bool" where
  "equals_matches BNull None = True"
| "equals_matches v None = False"
| "equals_matches v (Some w) = (v = w)"

fun field_matches :: "fieldcond \<Rightarrow> bson option \<Rightarrow> bool" where
  "field_matches (Equals v) x = equals_matches v x"
| "field_matches (Exists b) x = ((x \<noteq> None) = b)"
| "field_matches (TypeOf t) x = (case x of None \<Rightarrow> False | Some w \<Rightarrow> type_matches t w)"
| "field_matches (NotEquals v) x = (\<not> equals_matches v x)"
| "field_matches (OneOf vs) x = list_ex (\<lambda>v. equals_matches v x) vs"

fun matches_clause :: "clause \<Rightarrow> doc \<Rightarrow> bool" where
  "matches_clause (FieldCond k c) d = field_matches c (map_of d k)"
| "matches_clause (AndOf fs) d = list_all (\<lambda>f. list_all (\<lambda>c. matches_clause c d) f) fs"
| "matches_clause (OrOf fs) d = list_ex (\<lambda>f. list_all (\<lambda>c. matches_clause c d) f) fs"

definition matches :: "filter \<Rightarrow> doc \<Rightarrow> bool" where
  "matches f d = list_all (\<lambda>c. matches_clause c d) f"

section \<open>The soft-delete plugin\<close>

text \<open>
  \<open>Math.floor(Date.now() / 1000)\<close>, the clock reading as a parameter: a whole number of
  milliseconds since the epoch, so the floor of the quotient is the integer quotient.
\<close>

definition generateUnixTime :: "int \<Rightarrow> int" where
  "generateUnixTime now_ms = now_ms div 1000"

record plugin_opts =
  field :: string
  defaultFilter :: string

definition opts :: plugin_opts where
  "opts = \<lparr>field = ''deletedAt'', defaultFilter = ''exclude''\<rparr>"

definition notDeleted :: "plugin_opts \<Rightarrow> filter" where
  "notDeleted cfg =
     [OrOf [[FieldCond (field cfg) (Exists False)], [FieldCond (field cfg) (Equals BNull)]]]"

definition isDeleted :: "plugin_opts \<Rightarrow> filter" where
  "isDeleted cfg = [FieldCond (field cfg) (TypeOf ''number'')]"

text \<open>
  A query carries the name of its operation, its filter (\<open>getFilter\<close>), its per-call
  options (\<open>getOptions\<close>) and, for an update, the fields of its \<open>$set\<close>.  An option that
  was never set is \<open>None\<close> (\<open>undefined\<close>).  A query always has a filter object and an
  options object, so the fallbacks \<open>?? {}\<close> of \<open>apply\<close> are the identity on them; the
  options of an aggregation may be missing, and the hook then reads an empty object.
\<close>

record query_options =
  opt_withDeleted :: "bool option"
  opt_onlyDeleted :: "bool option"

record query =
  op :: string
  conditions :: filter
  options :: query_options
  update_set :: doc

text \<open>The value of \<open>o.x || b\<close> and of \<open>o.x === true || b\<close> for an optional boolean \<open>o.x\<close>.\<close>

definition truthy :: "bool option \<Rightarrow> bool" where
  "truthy x = (x = Some True)"

text \<open>The query helpers: \<open>this.setOptions({ withDeleted: true }); return this\<close>.\<close>

definition withDeleted :: "query \<Rightarrow> query" where
  "withDeleted q = q\<lparr>options := (options q)\<lparr>opt_withDeleted := Some True\<rparr>\<rparr>"

definition onlyDeleted :: "query \<Rightarrow> query" where
  "onlyDeleted q = q\<lparr>options := (options q)\<lparr>opt_onlyDeleted := Some True\<rparr>\<rparr>"

definition methods :: "string list" where
  "methods =
     [''find'', ''findOne'', ''count'', ''countDocuments'', ''distinct'', ''update'',
      ''updateOne'', ''updateMany'', ''findOneAndUpdate'', ''findOneAndDelete'',
      ''findOneAndRemove'', ''exists'']"

text \<open>
  \<open>q.where(cond)\<close> merges the keys of \<open>cond\<close> into the query's filter, a key of \<open>cond\<close>
  taking the place of the same key of the filter; \<open>q.setQuery(f)\<close> replaces the filter.
\<close>

fun put_key :: "clause \<Rightarrow> filter \<Rightarrow> filter" where
  "put_key c [] = [c]"
| "put_key c (x # xs) = (if key_of x = key_of c then c # xs else x # put_key c xs)"

definition where_merge :: "filter \<Rightarrow> query \<Rightarrow> query" where
  "where_merge cond q = q\<lparr>conditions := foldl (\<lambda>f c. put_key c f) (conditions q) cond\<rparr>"

definition setQuery :: "filter \<Rightarrow> query \<Rightarrow> query" where
  "setQuery f q = q\<lparr>conditions := f\<rparr>"

text \<open>The function \<open>apply\<close> of the plugin, the query returned as the hook leaves it.\<close>

definition apply_hook :: "plugin_opts \<Rightarrow> query \<Rightarrow> query" where
  "apply_hook cfg q =
     (let qopts = options q;
          only = (truthy (opt_onlyDeleted qopts) \<or> defaultFilter cfg = ''only'');
          include = (truthy (opt_withDeleted qopts) \<or> defaultFilter cfg = ''include'')
      in if include \<and> \<not> only then q
         else
           let cond = (if only then isDeleted cfg else notDeleted cfg);
               current = conditions q;
               hasFilter = (length (keys current) > 0)
           in if \<not> hasFilter then where_merge cond q
              else setQuery [AndOf [current, cond]] q)"

text \<open>
  \<open>methods.forEach(m => schema.pre(m, ...))\<close>: before a query of operation \<open>m\<close> runs, the
  hooks registered under \<open>m\<close> run on it.
\<close>

definition pre_query :: "plugin_opts \<Rightarrow> query \<Rightarrow> query" where
  "pre_query cfg q = (if op q \<in> set methods then apply_hook cfg q else q)"

text \<open>
  An aggregation is a pipeline of stages with its options.  A \<open>$match\<close> stage keeps the
  documents its filter selects; any other stage is a function of the documents that
  reach it.
\<close>

datatype stage = Match filter | Stage "doc list \<Rightarrow> doc list"

record aggregate =
  pipeline :: "stage list"
  agg_options :: "query_options option"

definition pre_aggregate :: "plugin_opts \<Rightarrow> aggregate \<Rightarrow> aggregate" where
  "pre_aggregate cfg a =
     (let aopts = (case agg_options a of None \<Rightarrow> \<lparr>opt_withDeleted = None, opt_onlyDeleted = None\<rparr>
                   | Some x \<Rightarrow> x);
          only = (truthy (opt_onlyDeleted aopts) \<or> defaultFilter cfg = ''only'');
          include = (truthy (opt_withDeleted aopts) \<or> defaultFilter cfg = ''include'')
      in if include \<and> \<not> only then a
         else a\<lparr>pipeline := Match (if only then isDeleted cfg else notDeleted cfg) # pipeline a\<rparr>)"

fun run_stage :: "stage \<Rightarrow> doc list \<Rightarrow> doc list" where
  "run_stage (Match f) ds = filter (matches f) ds"
| "run_stage (Stage g) ds = g ds"

definition run_pipeline :: "stage list \<Rightarrow> doc list \<Rightarrow> doc list" where
  "run_pipeline stages ds = foldl (\<lambda>acc s. run_stage s acc) ds stages"

section \<open>Executing operations on a collection\<close>

text \<open>
  A collection is the list of its documents.  A read returns the documents that the
  filter of the query selects, after the hooks have run.  \<open>Model.updateMany(f, { $set: u })\<close>
  makes an \<open>updateMany\<close> query with the filter \<open>f\<close> and no options; when it runs, the hooks
  registered under \<open>updateMany\<close> run first, and the fields of \<open>u\<close> are then written into
  each document the filter of the query selects.
\<close>

definition Model_find :: "plugin_opts \<Rightarrow> query \<Rightarrow> doc list \<Rightarrow> doc list" where
  "Model_find cfg q coll = filter (matches (conditions (pre_query cfg q))) coll"

definition apply_set :: "doc \<Rightarrow> doc \<Rightarrow> doc" where
  "apply_set upd d = foldl (\<lambda>acc (k, v). AList.update k v acc) d upd"

definition Model_updateMany :: "plugin_opts \<Rightarrow> filter \<Rightarrow> doc \<Rightarrow> doc list \<Rightarrow> doc list" where
  "Model_updateMany cfg f upd coll =
     (let q = pre_query cfg
                \<lparr>op = ''updateMany'', conditions = f,
                 options = \<lparr>opt_withDeleted = None, opt_onlyDeleted = None\<rparr>,
                 update_set = upd\<rparr>
      in map (\<lambda>d. if matches (conditions q) d then apply_set (update_set q) d else d) coll)"

text \<open>
  A document in memory holds its field values, knows whether it was ever stored
  (\<open>isNew\<close>) and keeps the paths assigned since it was loaded or last saved.  An
  assignment \<open>this[p] = v\<close> sets the value; it marks the path as modified when the
  document is new, when the path is marked already, or when \<open>v\<close> differs from the value
  the document held.
\<close>

record document =
  isNew :: bool
  data :: doc
  modified :: "string list"

definition set_path :: "string \<Rightarrow> bson \<Rightarrow> document \<Rightarrow> document" where
  "set_path p v this =
     this\<lparr>data := AList.update p v (data this),
          modified := (if isNew this \<or> p \<in> set (modified this) \<or> map_of (data this) p \<noteq> Some v
                       then List.insert p (modified this) else modified this)\<rparr>"

text \<open>
  \<open>this.save()\<close> on a schema with the required paths \<open>req\<close> and the hook \<open>hook\<close> registered
  before \<open>save\<close>.  The required paths are validated first, on the document as the caller
  left it: each must hold a value other than null.  Then the hook runs.  A new document
  is then inserted whole, unless its \<open>_id\<close> is taken; a document that is not new is
  written by \<open>_id\<close>: the stored record with that \<open>_id\<close> gets the modified paths, its other
  fields stay as stored, and the save fails when no stored record has the \<open>_id\<close>.
\<close>

datatype save_error = ValidationError | MissingId | DuplicateKey | DocumentNotFoundError

definition required_ok :: "string list \<Rightarrow> doc \<Rightarrow> bool" where
  "required_ok req d =
     list_all (\<lambda>p. case map_of d p of None \<Rightarrow> False | Some v \<Rightarrow> v \<noteq> BNull) req"

definition same_id :: "doc \<Rightarrow> doc \<Rightarrow> bool" where
  "same_id a b = (map_of b ''_id'' = map_of a ''_id'')"

definition write_paths :: "string list \<Rightarrow> doc \<Rightarrow> doc \<Rightarrow> doc" where
  "write_paths ps src dst =
     foldl (\<lambda>acc p. case map_of src p of None \<Rightarrow> AList.delete p acc
                                        | Some v \<Rightarrow> AList.update p v acc) dst ps"

fun update_first :: "(doc \<Rightarrow> bool) \<Rightarrow> (doc \<Rightarrow> doc) \<Rightarrow> doc list \<Rightarrow> doc list" where
  "update_first P f [] = []"
| "update_first P f (s # ss) = (if P s then f s # ss else s # update_first P f ss)"

definition save_with ::
  "string list \<Rightarrow> (document \<Rightarrow> document) \<Rightarrow> document \<Rightarrow> doc list
     \<Rightarrow> save_error + document \<times> doc list" where
  "save_with req hook this coll =
     (if \<not> required_ok req (data this) then Inl ValidationError
      else
        let this1 = hook this in
        if map_of (data this1) ''_id'' = None then Inl MissingId
        else if isNew this1 then
          (if list_ex (same_id (data this1)) coll then Inl DuplicateKey
           else Inr (this1\<lparr>isNew := False, modified := []\<rparr>, coll @ [data this1]))
        else if \<not> list_ex (same_id (data this1)) coll then Inl DocumentNotFoundError
        else Inr (this1\<lparr>modified := []\<rparr>,
                  update_first (same_id (data this1))
                    (write_paths (modified this1) (data this1)) coll))"

text \<open>
  The instance methods \<open>softDelete\<close> and \<open>restore\<close>, on a schema that carries this plugin
  alone (its marker path is not required, and it registers no hook before \<open>save\<close>): the
  assignment to the marker path, then \<open>save\<close>.
\<close>

definition softDelete_method ::
  "plugin_opts \<Rightarrow> int \<Rightarrow> document \<Rightarrow> doc list \<Rightarrow> save_error + document \<times> doc list" where
  "softDelete_method cfg now_ms this coll =
     save_with [] (\<lambda>d. d) (set_path (field cfg) (BNum (generateUnixTime now_ms)) this) coll"

definition restore_method ::
  "plugin_opts \<Rightarrow> document \<Rightarrow> doc list \<Rightarrow> save_error + document \<times> doc list" where
  "restore_method cfg this coll =
     save_with [] (\<lambda>d. d) (set_path (field cfg) BNull this) coll"

text \<open>The statics \<open>softDelete(filter = {})\<close> and \<open>restore(filter = {})\<close>; \<open>None\<close> is an omitted argument.\<close>

definition softDelete_static ::
  "plugin_opts \<Rightarrow> int \<Rightarrow> filter option \<Rightarrow> doc list \<Rightarrow> doc list" where
  "softDelete_static cfg now_ms fopt coll =
     Model_updateMany cfg (case fopt of None \<Rightarrow> [] | Some f \<Rightarrow> f)
       [(''deletedAt'', BNum (generateUnixTime now_ms))] coll"

definition restore_static :: "plugin_opts \<Rightarrow> filter option \<Rightarrow> doc list \<Rightarrow> doc list" where
  "restore_static cfg fopt coll =
     Model_updateMany cfg (case fopt of None \<Rightarrow> [] | Some f \<Rightarrow> f)
       [(''deletedAt'', BNull)] coll"

section \<open>The timestamp plugin\<close>

text \<open>
  The plugin adds the paths \<open>createdAt\<close> and \<open>updatedAt\<close> to the schema, both
  \<open>required: true\<close>, and registers a hook before \<open>save\<close>.  The hook reads the clock once for
  each marker it assigns; \<open>t1\<close> is the reading for the creation marker and \<open>t2\<close> the one for
  the update marker.
\<close>

definition timeSpanToUnix_required :: "string list" where
  "timeSpanToUnix_required = [''createdAt'', ''updatedAt'']"

definition pre_save :: "int \<Rightarrow> int \<Rightarrow> document \<Rightarrow> document" where
  "pre_save t1 t2 this =
     (let this1 = (if isNew this
                   then set_path ''createdAt'' (BNum (generateUnixTime t1)) this
                   else this)
      in set_path ''updatedAt'' (BNum (generateUnixTime t2)) this1)"

text \<open>\<open>save\<close> of a document of a schema that carries the timestamp plugin.\<close>

definition timeSpanToUnix_save ::
  "int \<Rightarrow> int \<Rightarrow> document \<Rightarrow> doc list \<Rightarrow> save_error + document \<times> doc list" where
  "timeSpanToUnix_save t1 t2 this coll =
     save_with timeSpanToUnix_required (pre_save t1 t2) this coll"

text \<open>The hook before \<open>findOneAndUpdate\<close>: \<open>this.set({ updatedAt: generateUnixTime() })\<close>.\<close>

definition pre_findOneAndUpdate :: "int \<Rightarrow> query \<Rightarrow> query" where
  "pre_findOneAndUpdate t q =
     q\<lparr>update_set := AList.update ''updatedAt'' (BNum (generateUnixTime t)) (update_set q)\<rparr>"

text \<open>
  The plugin registers a query hook under \<open>findOneAndUpdate\<close> and under no other query
  operation, so this is what runs before a query of operation \<open>op q\<close>.
\<close>

definition timeSpanToUnix_pre_query :: "int \<Rightarrow> query \<Rightarrow> query" where
  "timeSpanToUnix_pre_query t q =
     (if op q = ''findOneAndUpdate'' then pre_findOneAndUpdate t q else q)"

section \<open>What the deletion predicates select\<close>

lemma matches_notDeleted:
  "matches (notDeleted cfg) d =
     (map_of d (field cfg) = None \<or> map_of d (field cfg) = Some BNull)"
proof (cases "map_of d (field cfg)")
  case None
  then show ?thesis by (simp add: matches_def notDeleted_def)
next
  case (Some v)
  then show ?thesis by (cases v) (simp_all add: matches_def notDeleted_def)
qed

lemma matches_isDeleted:
  "matches (isDeleted cfg) d = (\<exists>n. map_of d (field cfg) = Some (BNum n))"
proof (cases "map_of d (field cfg)")
  case None
  then show ?thesis by (simp add: matches_def isDeleted_def)
next
  case (Some v)
  then show ?thesis by (cases v) (simp_all add: matches_def isDeleted_def)
qed

lemma matches_AndOf2:
  "matches [AndOf [f, g]] d = (matches f d \<and> matches g d)"
  by (simp add: matches_def)

lemma matches_Nil: "matches [] d"
  by (simp add: matches_def)

text \<open>
  C6: \<open>notDeleted()\<close> selects a record exactly when the marker field is absent or null,
  \<open>isDeleted()\<close> exactly when it is present with a number; a record whose marker holds
  any other value, a string say, is selected by neither of them.
\<close>

theorem C6_predicates:
  "(matches (notDeleted cfg) d =
      (map_of d (field cfg) = None \<or> map_of d (field cfg) = Some BNull))
   \<and> (matches (isDeleted cfg) d = (\<exists>n. map_of d (field cfg) = Some (BNum n)))
   \<and> (map_of d (field cfg) = Some v \<and> v \<noteq> BNull \<and> (\<forall>n. v \<noteq> BNum n)
        \<longrightarrow> \<not> matches (notDeleted cfg) d \<and> \<not> matches (isDeleted cfg) d)"
  by (simp add: matches_notDeleted matches_isDeleted)

theorem C6_predicates_witness:
  "\<not> matches (notDeleted opts) [(''_id'', BNum 7), (''deletedAt'', BStr ''yesterday'')]
   \<and> \<not> matches (isDeleted opts) [(''_id'', BNum 7), (''deletedAt'', BStr ''yesterday'')]"
  using C6_predicates [of opts "[(''_id'', BNum 7), (''deletedAt'', BStr ''yesterday'')]"
      "BStr ''yesterday''"]
  by (simp add: opts_def)

section \<open>The filter the hook leaves on a query\<close>

lemma where_merge_empty_notDeleted:
  "conditions q = [] \<Longrightarrow> conditions (where_merge (notDeleted cfg) q) = notDeleted cfg"
  by (simp add: where_merge_def notDeleted_def)

lemma where_merge_empty_isDeleted:
  "conditions q = [] \<Longrightarrow> conditions (where_merge (isDeleted cfg) q) = isDeleted cfg"
  by (simp add: where_merge_def isDeleted_def)

lemma conditions_apply_hook:
  "conditions (apply_hook cfg q) =
     (let only = (truthy (opt_onlyDeleted (options q)) \<or> defaultFilter cfg = ''only'');
          include = (truthy (opt_withDeleted (options q)) \<or> defaultFilter cfg = ''include'');
          cond = (if only then isDeleted cfg else notDeleted cfg)
      in if include \<and> \<not> only then conditions q
         else if conditions q = [] then cond
         else [AndOf [conditions q, cond]])"
  by (simp add: apply_hook_def Let_def keys_def setQuery_def
      where_merge_empty_notDeleted where_merge_empty_isDeleted)

text \<open>
  C3: under the default mode \<open>exclude\<close>, a query of a hooked operation with neither
  option set runs with a filter that rejects every record whose marker is a number, so
  the read does not return such a record, whatever the caller's filter is.
\<close>

theorem C3_default_exclusion:
  assumes "defaultFilter cfg = ''exclude''"
    and "opt_withDeleted (options q) \<noteq> Some True"
    and "opt_onlyDeleted (options q) \<noteq> Some True"
    and "op q \<in> set methods"
    and "map_of d (field cfg) = Some (BNum n)"
  shows "\<not> matches (conditions (pre_query cfg q)) d \<and> d \<notin> set (Model_find cfg q coll)"
proof -
  have "\<not> matches (notDeleted cfg) d"
    using assms(5) by (simp add: matches_notDeleted)
  moreover have "conditions (pre_query cfg q) =
      (if conditions q = [] then notDeleted cfg else [AndOf [conditions q, notDeleted cfg]])"
    using assms(1-4) by (simp add: pre_query_def conditions_apply_hook truthy_def)
  ultimately have "\<not> matches (conditions (pre_query cfg q)) d"
    by (simp add: matches_AndOf2)
  then show ?thesis
    by (simp add: Model_find_def)
qed

theorem C3_default_exclusion_witness:
  "\<not> matches
       (conditions (pre_query opts
          \<lparr>op = ''find'', conditions = [FieldCond ''role'' (Equals (BStr ''admin''))],
           options = \<lparr>opt_withDeleted = None, opt_onlyDeleted = Some False\<rparr>,
           update_set = []\<rparr>))
       [(''role'', BStr ''admin''), (''deletedAt'', BNum 1700000000)]
   \<and> [(''role'', BStr ''admin''), (''deletedAt'', BNum 1700000000)]
       \<notin> set (Model_find opts
          \<lparr>op = ''find'', conditions = [FieldCond ''role'' (Equals (BStr ''admin''))],
           options = \<lparr>opt_withDeleted = None, opt_onlyDeleted = Some False\<rparr>,
           update_set = []\<rparr>
          [[(''role'', BStr ''admin'')],
           [(''role'', BStr ''admin''), (''deletedAt'', BNum 1700000000)]])"
  using C3_default_exclusion [of opts
      "\<lparr>op = ''find'', conditions = [FieldCond ''role'' (Equals (BStr ''admin''))],
        options = \<lparr>opt_withDeleted = None, opt_onlyDeleted = Some False\<rparr>,
        update_set = []\<rparr>"
      "[(''role'', BStr ''admin''), (''deletedAt'', BNum 1700000000)]" 1700000000
      "[[(''role'', BStr ''admin'')],
        [(''role'', BStr ''admin''), (''deletedAt'', BNum 1700000000)]]"]
  by (simp add: opts_def methods_def)

text \<open>
  C4: when both \<open>onlyDeleted\<close> and \<open>withDeleted\<close> are requested the hook injects
  \<open>isDeleted()\<close>, the same filter as with \<open>onlyDeleted\<close> alone, and a read returns the
  same records; the aggregation hook likewise puts the same \<open>isDeleted()\<close> match stage in
  front of the pipeline.
\<close>

theorem C4_only_precedence:
  "conditions (apply_hook cfg (onlyDeleted (withDeleted q)))
     = (if conditions q = [] then isDeleted cfg else [AndOf [conditions q, isDeleted cfg]])
   \<and> conditions (apply_hook cfg (onlyDeleted (withDeleted q)))
     = conditions (apply_hook cfg (onlyDeleted q))
   \<and> conditions (apply_hook cfg (withDeleted (onlyDeleted q)))
     = conditions (apply_hook cfg (onlyDeleted q))
   \<and> Model_find cfg (onlyDeleted (withDeleted q)) coll = Model_find cfg (onlyDeleted q) coll
   \<and> pipeline (pre_aggregate cfg
        (a\<lparr>agg_options := Some \<lparr>opt_withDeleted = Some True, opt_onlyDeleted = Some True\<rparr>\<rparr>))
     = Match (isDeleted cfg) # pipeline a
   \<and> pipeline (pre_aggregate cfg
        (a\<lparr>agg_options := Some \<lparr>opt_withDeleted = Some True, opt_onlyDeleted = Some True\<rparr>\<rparr>))
     = pipeline (pre_aggregate cfg
        (a\<lparr>agg_options := Some \<lparr>opt_withDeleted = None, opt_onlyDeleted = Some True\<rparr>\<rparr>))"
proof -
  have q: "conditions (apply_hook cfg (onlyDeleted (withDeleted q)))
     = (if conditions q = [] then isDeleted cfg else [AndOf [conditions q, isDeleted cfg]])"
    by (simp add: conditions_apply_hook onlyDeleted_def withDeleted_def truthy_def)
  have q': "conditions (apply_hook cfg (onlyDeleted q))
     = (if conditions q = [] then isDeleted cfg else [AndOf [conditions q, isDeleted cfg]])"
    by (simp add: conditions_apply_hook onlyDeleted_def truthy_def)
  have q'': "conditions (apply_hook cfg (withDeleted (onlyDeleted q)))
     = conditions (apply_hook cfg (onlyDeleted q))"
    by (simp add: conditions_apply_hook onlyDeleted_def withDeleted_def truthy_def Let_def)
  have opq: "op (onlyDeleted (withDeleted q)) = op (onlyDeleted q)"
    "conditions (onlyDeleted (withDeleted q)) = conditions (onlyDeleted q)"
    by (simp_all add: onlyDeleted_def withDeleted_def)
  have f: "Model_find cfg (onlyDeleted (withDeleted q)) coll = Model_find cfg (onlyDeleted q) coll"
    using q q' opq by (simp add: Model_find_def pre_query_def)
  have a: "pipeline (pre_aggregate cfg
        (a\<lparr>agg_options := Some \<lparr>opt_withDeleted = Some True, opt_onlyDeleted = Some True\<rparr>\<rparr>))
     = Match (isDeleted cfg) # pipeline a"
    by (simp add: pre_aggregate_def truthy_def)
  have a': "pipeline (pre_aggregate cfg
        (a\<lparr>agg_options := Some \<lparr>opt_withDeleted = None, opt_onlyDeleted = Some True\<rparr>\<rparr>))
     = Match (isDeleted cfg) # pipeline a"
    by (simp add: pre_aggregate_def truthy_def)
  show ?thesis
    using q q' q'' f a a' by simp
qed

lemma put_key_mem: "c \<in> set (put_key c f)"
  by (induction f) simp_all

text \<open>
  C5: when the resolved mode asks for a deletion predicate \<open>cond\<close>, a caller's filter
  with no keys is replaced by exactly \<open>cond\<close>; any other caller's filter \<open>current\<close> becomes
  \<open>{ $and: [current, cond] }\<close>, which is not what merging the keys of \<open>cond\<close> into
  \<open>current\<close> gives; in both cases a record is selected exactly when \<open>current\<close> and
  \<open>cond\<close> both select it.
\<close>

theorem C5_filter_merge:
  assumes "only = (opt_onlyDeleted (options q) = Some True \<or> defaultFilter cfg = ''only'')"
    and "include = (opt_withDeleted (options q) = Some True \<or> defaultFilter cfg = ''include'')"
    and "\<not> (include \<and> \<not> only)"
    and "cond = (if only then isDeleted cfg else notDeleted cfg)"
  shows "(keys (conditions q) = [] \<longrightarrow> conditions (apply_hook cfg q) = cond)
       \<and> (keys (conditions q) \<noteq> [] \<longrightarrow>
            conditions (apply_hook cfg q) = [AndOf [conditions q, cond]]
            \<and> conditions (apply_hook cfg q) \<noteq> conditions (where_merge cond q))
       \<and> (matches (conditions (apply_hook cfg q)) d
            = (matches (conditions q) d \<and> matches cond d))"
proof -
  have shape: "conditions (apply_hook cfg q) =
      (if conditions q = [] then cond else [AndOf [conditions q, cond]])"
    using assms by (auto simp add: conditions_apply_hook truthy_def Let_def)
  have sem: "matches (conditions (apply_hook cfg q)) d
            = (matches (conditions q) d \<and> matches cond d)"
    by (simp add: shape matches_AndOf2 matches_Nil)
  obtain c where c: "cond = [c]" "\<forall>fs. c \<noteq> AndOf fs"
    using assms(4) by (cases only) (simp_all add: isDeleted_def notDeleted_def)
  have "c \<in> set (conditions (where_merge cond q))"
    using c(1) by (simp add: where_merge_def put_key_mem)
  moreover have "c \<notin> set [AndOf [conditions q, cond]]"
    using c(2) by simp
  ultimately have "[AndOf [conditions q, cond]] \<noteq> conditions (where_merge cond q)"
    by metis
  then show ?thesis
    using shape sem by (simp add: keys_def)
qed

theorem C5_filter_merge_witness:
  "conditions (apply_hook opts
       \<lparr>op = ''find'', conditions = [],
        options = \<lparr>opt_withDeleted = None, opt_onlyDeleted = None\<rparr>, update_set = []\<rparr>)
     = notDeleted opts
   \<and> conditions (apply_hook opts
       \<lparr>op = ''find'', conditions = [FieldCond ''deletedAt'' (TypeOf ''number'')],
        options = \<lparr>opt_withDeleted = Some True, opt_onlyDeleted = Some True\<rparr>,
        update_set = []\<rparr>)
     = [AndOf [[FieldCond ''deletedAt'' (TypeOf ''number'')], isDeleted opts]]"
  using C5_filter_merge [of False
      "\<lparr>op = ''find'', conditions = [],
        options = \<lparr>opt_withDeleted = None, opt_onlyDeleted = None\<rparr>, update_set = []\<rparr>"
      opts False "notDeleted opts" "[]"]
    C5_filter_merge [of True
      "\<lparr>op = ''find'', conditions = [FieldCond ''deletedAt'' (TypeOf ''number'')],
        options = \<lparr>opt_withDeleted = Some True, opt_onlyDeleted = Some True\<rparr>,
        update_set = []\<rparr>"
      opts True "isDeleted opts" "[]"]
  by (simp add: opts_def keys_def)

section \<open>Aggregations\<close>

lemma run_pipeline_Cons:
  "run_pipeline (s # stages) ds = run_pipeline stages (run_stage s ds)"
  by (simp add: run_pipeline_def)

text \<open>
  C7: when the resolved mode asks for a deletion predicate, the aggregation hook puts one
  match stage with that predicate in front of the pipeline and leaves the stages that
  were there in their order, so the rest of the pipeline runs on the selected records
  only; when the mode is include (and not only) the aggregation is left as it was.
\<close>

theorem C7_aggregate_first_stage:
  assumes "aopts = (case agg_options a of
                      None \<Rightarrow> \<lparr>opt_withDeleted = None, opt_onlyDeleted = None\<rparr>
                    | Some x \<Rightarrow> x)"
    and "only = (opt_onlyDeleted aopts = Some True \<or> defaultFilter cfg = ''only'')"
    and "include = (opt_withDeleted aopts = Some True \<or> defaultFilter cfg = ''include'')"
    and "cond = (if only then isDeleted cfg else notDeleted cfg)"
  shows "(\<not> (include \<and> \<not> only) \<longrightarrow>
            pipeline (pre_aggregate cfg a) = Match cond # pipeline a
            \<and> run_pipeline (pipeline (pre_aggregate cfg a)) coll
                = run_pipeline (pipeline a) (filter (matches cond) coll))
       \<and> (include \<and> \<not> only \<longrightarrow> pre_aggregate cfg a = a)"
proof -
  have unchanged: "include \<and> \<not> only \<longrightarrow> pre_aggregate cfg a = a"
    using assms(1-3) by (auto simp add: pre_aggregate_def truthy_def Let_def)
  have first: "\<not> (include \<and> \<not> only) \<longrightarrow> pipeline (pre_aggregate cfg a) = Match cond # pipeline a"
    using assms by (auto simp add: pre_aggregate_def truthy_def Let_def)
  then have "\<not> (include \<and> \<not> only) \<longrightarrow>
      run_pipeline (pipeline (pre_aggregate cfg a)) coll
        = run_pipeline (pipeline a) (filter (matches cond) coll)"
    by (simp add: run_pipeline_Cons)
  with unchanged first show ?thesis
    by blast
qed

theorem C7_aggregate_first_stage_witness:
  "pipeline (pre_aggregate opts
       \<lparr>pipeline = [Stage rev, Match [FieldCond ''role'' (Equals (BStr ''admin''))]],
        agg_options = None\<rparr>)
     = [Match (notDeleted opts), Stage rev, Match [FieldCond ''role'' (Equals (BStr ''admin''))]]
   \<and> pre_aggregate opts
       \<lparr>pipeline = [Stage rev],
        agg_options = Some \<lparr>opt_withDeleted = Some True, opt_onlyDeleted = None\<rparr>\<rparr>
     = \<lparr>pipeline = [Stage rev],
        agg_options = Some \<lparr>opt_withDeleted = Some True, opt_onlyDeleted = None\<rparr>\<rparr>"
  using C7_aggregate_first_stage [of
      "\<lparr>opt_withDeleted = None, opt_onlyDeleted = None\<rparr>"
      "\<lparr>pipeline = [Stage rev, Match [FieldCond ''role'' (Equals (BStr ''admin''))]],
        agg_options = None\<rparr>"
      False opts False "notDeleted opts" "[]"]
    C7_aggregate_first_stage [of
      "\<lparr>opt_withDeleted = Some True, opt_onlyDeleted = None\<rparr>"
      "\<lparr>pipeline = [Stage rev],
        agg_options = Some \<lparr>opt_withDeleted = Some True, opt_onlyDeleted = None\<rparr>\<rparr>"
      False opts True "notDeleted opts" "[]"]
  by (simp add: opts_def)

section \<open>The query helpers\<close>

text \<open>
  C10: \<open>withDeleted()\<close> and \<open>onlyDeleted()\<close> set their own option and change neither the
  other option nor the filter, the operation or the update of the query; and when the
  resolved mode is include (and not only) the hook returns the query as it was, its
  filter included.
\<close>

theorem C10_helpers_frame:
  "conditions (withDeleted q) = conditions q
   \<and> op (withDeleted q) = op q
   \<and> update_set (withDeleted q) = update_set q
   \<and> opt_withDeleted (options (withDeleted q)) = Some True
   \<and> opt_onlyDeleted (options (withDeleted q)) = opt_onlyDeleted (options q)
   \<and> conditions (onlyDeleted q) = conditions q
   \<and> op (onlyDeleted q) = op q
   \<and> update_set (onlyDeleted q) = update_set q
   \<and> opt_onlyDeleted (options (onlyDeleted q)) = Some True
   \<and> opt_withDeleted (options (onlyDeleted q)) = opt_withDeleted (options q)
   \<and> ((opt_withDeleted (options q) = Some True \<or> defaultFilter cfg = ''include'')
        \<and> \<not> (opt_onlyDeleted (options q) = Some True \<or> defaultFilter cfg = ''only'')
        \<longrightarrow> apply_hook cfg q = q \<and> pre_query cfg q = q)"
  by (simp add: withDeleted_def onlyDeleted_def apply_hook_def pre_query_def truthy_def)

theorem C10_helpers_frame_witness:
  "apply_hook opts (withDeleted
       \<lparr>op = ''find'', conditions = [FieldCond ''role'' (Equals (BStr ''admin''))],
        options = \<lparr>opt_withDeleted = None, opt_onlyDeleted = None\<rparr>, update_set = []\<rparr>)
     = \<lparr>op = ''find'', conditions = [FieldCond ''role'' (Equals (BStr ''admin''))],
        options = \<lparr>opt_withDeleted = Some True, opt_onlyDeleted = None\<rparr>, update_set = []\<rparr>"
  using C10_helpers_frame [of
      "withDeleted \<lparr>op = ''find'', conditions = [FieldCond ''role'' (Equals (BStr ''admin''))],
        options = \<lparr>opt_withDeleted = None, opt_onlyDeleted = None\<rparr>, update_set = []\<rparr>" opts]
  by (simp add: opts_def withDeleted_def)

section \<open>The instance methods\<close>

lemma map_of_write_paths:
  "map_of (write_paths ps src dst) p = (if p \<in> set ps then map_of src p else map_of dst p)"
  unfolding write_paths_def
proof (induction ps arbitrary: dst)
  case Nil
  then show ?case by simp
next
  case (Cons a ps)
  show ?case
    by (cases "map_of src a") (simp_all add: Cons.IH update_conv' delete_conv')
qed

lemma same_id_write_paths:
  "same_id d s \<Longrightarrow> same_id d (write_paths ps d s)"
  by (simp add: same_id_def map_of_write_paths)

lemma find_update_first:
  assumes "\<And>s. P s \<Longrightarrow> P (f s)"
  shows "List.find P (update_first P f coll) = map_option f (List.find P coll)"
  by (induction coll) (simp_all add: assms)

lemma find_append_new:
  "\<not> list_ex P coll \<Longrightarrow> P d \<Longrightarrow> List.find P (coll @ [d]) = Some d"
  by (induction coll) simp_all

lemma list_ex_find:
  "list_ex P coll \<Longrightarrow> \<exists>s. List.find P coll = Some s \<and> P s"
  by (induction coll) auto

lemma find_mem: "List.find P coll = Some s \<Longrightarrow> s \<in> set coll"
  by (induction coll) (auto split: if_splits)

lemma save_plain_stored:
  assumes ok: "save_with [] (\<lambda>d. d) this coll = Inr (this', coll')"
    and dirty: "isNew this \<or> p \<in> set (modified this)"
  shows "data this' = data this \<and> \<not> isNew this' \<and> modified this' = []
       \<and> (\<exists>s. List.find (same_id (data this)) coll' = Some s
              \<and> map_of s p = map_of (data this) p)"
proof (cases "isNew this")
  case True
  with ok have fresh: "\<not> list_ex (same_id (data this)) coll"
    and res: "this' = this\<lparr>isNew := False, modified := []\<rparr>" "coll' = coll @ [data this]"
    by (auto simp add: save_with_def required_ok_def Let_def split: if_splits)
  have "List.find (same_id (data this)) coll' = Some (data this)"
    using fresh res(2) by (simp add: find_append_new same_id_def)
  with res(1) show ?thesis by simp
next
  case False
  with ok have ex: "list_ex (same_id (data this)) coll"
    and res: "this' = this\<lparr>modified := []\<rparr>"
      "coll' = update_first (same_id (data this))
                 (write_paths (modified this) (data this)) coll"
    by (auto simp add: save_with_def required_ok_def Let_def split: if_splits)
  from ex obtain s0 where s0: "List.find (same_id (data this)) coll = Some s0"
    by (auto dest: list_ex_find)
  have "List.find (same_id (data this)) coll'
      = Some (write_paths (modified this) (data this) s0)"
    using s0 res(2) by (simp add: find_update_first same_id_write_paths)
  moreover have "map_of (write_paths (modified this) (data this) s0) p = map_of (data this) p"
    using dirty False by (simp add: map_of_write_paths)
  ultimately show ?thesis
    using res(1) False by simp
qed

lemma set_path_data:
  "map_of (data (set_path p v this)) q = (if q = p then Some v else map_of (data this) q)"
  by (simp add: set_path_def update_conv')

lemma set_path_isNew: "isNew (set_path p v this) = isNew this"
  by (simp add: set_path_def)

lemma set_path_dirty:
  "isNew this \<or> p \<in> set (modified this) \<or> map_of (data this) p \<noteq> Some v
     \<Longrightarrow> isNew (set_path p v this) \<or> p \<in> set (modified (set_path p v this))"
  by (auto simp add: set_path_def)

lemma default_read_filter:
  assumes "defaultFilter cfg = ''exclude''"
    and "opt_withDeleted (options q) \<noteq> Some True"
    and "opt_onlyDeleted (options q) \<noteq> Some True"
  shows "matches (conditions (pre_query cfg q)) d =
      (matches (conditions q) d \<and> (op q \<in> set methods \<longrightarrow> matches (notDeleted cfg) d))"
  using assms
  by (simp add: pre_query_def conditions_apply_hook truthy_def matches_AndOf2 matches_Nil Let_def)

text \<open>
  C8: the instance method \<open>restore\<close> assigns null to the marker path, so the document holds
  the marker with the value null, which \<open>notDeleted()\<close> accepts.  When \<open>softDelete\<close> and
  then \<open>restore\<close> of a document succeed, the stored record with the document's \<open>_id\<close> has a
  null marker, and a default read returns it whenever the caller's own filter selects it;
  between the two calls the stored record carries the deletion time and a default read of
  a hooked operation does not return it.  A \<open>restore\<close> that succeeds leaves the stored
  record with a null marker whenever the assignment changed the document.
\<close>

theorem C8_restore_visible:
  assumes mode: "defaultFilter cfg = ''exclude''"
    and nw: "opt_withDeleted (options q) \<noteq> Some True"
    and no: "opt_onlyDeleted (options q) \<noteq> Some True"
    and fld: "field cfg \<noteq> ''_id''"
    and del: "softDelete_method cfg now_ms this coll = Inr (this1, coll1)"
    and res: "restore_method cfg this1 coll1 = Inr (this2, coll2)"
  shows "map_of (data this2) (field cfg) = Some BNull
       \<and> matches (notDeleted cfg) (data this2)
       \<and> (\<exists>s2. List.find (same_id (data this)) coll2 = Some s2
            \<and> map_of s2 (field cfg) = Some BNull
            \<and> matches (notDeleted cfg) s2
            \<and> (matches (conditions q) s2 \<longrightarrow>
                 matches (conditions (pre_query cfg q)) s2 \<and> s2 \<in> set (Model_find cfg q coll2)))
       \<and> (isNew this \<or> field cfg \<in> set (modified this)
            \<or> map_of (data this) (field cfg) \<noteq> Some (BNum (generateUnixTime now_ms))
          \<longrightarrow> (\<exists>s1. List.find (same_id (data this)) coll1 = Some s1
                \<and> map_of s1 (field cfg) = Some (BNum (generateUnixTime now_ms))
                \<and> (op q \<in> set methods \<longrightarrow> s1 \<notin> set (Model_find cfg q coll1))))
       \<and> map_of (data (set_path (field cfg) BNull this0)) (field cfg) = Some BNull
       \<and> matches (notDeleted cfg) (data (set_path (field cfg) BNull this0))
       \<and> (restore_method cfg this0 coll0 = Inr (r, c) \<longrightarrow>
            map_of (data r) (field cfg) = Some BNull
            \<and> (isNew this0 \<or> field cfg \<in> set (modified this0)
                \<or> map_of (data this0) (field cfg) \<noteq> Some BNull
               \<longrightarrow> (\<exists>s. List.find (same_id (data this0)) c = Some s
                       \<and> map_of s (field cfg) = Some BNull)))"
proof -
  let ?f = "field cfg"
  let ?t = "BNum (generateUnixTime now_ms)"
  have id_set: "same_id (data (set_path ?f v x)) = same_id (data x)" for v x
    using fld by (simp add: same_id_def set_path_data fun_eq_iff)
  \<comment> \<open>after the soft delete\<close>
  have del': "save_with [] (\<lambda>d. d) (set_path ?f ?t this) coll = Inr (this1, coll1)"
    using del by (simp add: softDelete_method_def)
  have this1: "data this1 = data (set_path ?f ?t this)" "\<not> isNew this1" "modified this1 = []"
    using del' by (auto simp add: save_with_def required_ok_def Let_def split: if_splits)
  have m1: "map_of (data this1) ?f = Some ?t"
    by (simp add: this1(1) set_path_data)
  have id1: "same_id (data this1) = same_id (data this)"
    by (simp add: this1(1) id_set)
  have hidden: "isNew this \<or> ?f \<in> set (modified this) \<or> map_of (data this) ?f \<noteq> Some ?t
      \<longrightarrow> (\<exists>s1. List.find (same_id (data this)) coll1 = Some s1
            \<and> map_of s1 ?f = Some ?t
            \<and> (op q \<in> set methods \<longrightarrow> s1 \<notin> set (Model_find cfg q coll1)))"
  proof
    assume "isNew this \<or> ?f \<in> set (modified this) \<or> map_of (data this) ?f \<noteq> Some ?t"
    then have "isNew (set_path ?f ?t this) \<or> ?f \<in> set (modified (set_path ?f ?t this))"
      by (rule set_path_dirty)
    from save_plain_stored [OF del' this]
    obtain s1 where s1: "List.find (same_id (data this)) coll1 = Some s1"
        "map_of s1 ?f = Some ?t"
      by (auto simp add: id_set set_path_data)
    have "\<not> matches (notDeleted cfg) s1"
      using s1(2) by (simp add: matches_notDeleted)
    then have "op q \<in> set methods \<longrightarrow> s1 \<notin> set (Model_find cfg q coll1)"
      by (simp add: default_read_filter [OF mode nw no] Model_find_def)
    with s1 show "\<exists>s1. List.find (same_id (data this)) coll1 = Some s1
            \<and> map_of s1 ?f = Some ?t
            \<and> (op q \<in> set methods \<longrightarrow> s1 \<notin> set (Model_find cfg q coll1))"
      by blast
  qed
  \<comment> \<open>after the restore\<close>
  have res': "save_with [] (\<lambda>d. d) (set_path ?f BNull this1) coll1 = Inr (this2, coll2)"
    using res by (simp add: restore_method_def)
  have "map_of (data this1) ?f \<noteq> Some BNull"
    using m1 by simp
  then have "isNew (set_path ?f BNull this1) \<or> ?f \<in> set (modified (set_path ?f BNull this1))"
    by (simp add: set_path_dirty)
  from save_plain_stored [OF res' this]
  have d2: "data this2 = data (set_path ?f BNull this1)"
    and "\<exists>s2. List.find (same_id (data this)) coll2 = Some s2 \<and> map_of s2 ?f = Some BNull"
    by (auto simp add: id_set id1 set_path_data)
  then obtain s2 where s2: "List.find (same_id (data this)) coll2 = Some s2"
      "map_of s2 ?f = Some BNull"
    by blast
  have live2: "matches (notDeleted cfg) s2"
    using s2(2) by (simp add: matches_notDeleted)
  have in2: "s2 \<in> set coll2"
    using s2(1) by (rule find_mem)
  have vis: "matches (conditions q) s2 \<longrightarrow>
      matches (conditions (pre_query cfg q)) s2 \<and> s2 \<in> set (Model_find cfg q coll2)"
    using live2 in2 by (simp add: default_read_filter [OF mode nw no] Model_find_def)
  have mem2: "map_of (data this2) ?f = Some BNull"
    by (simp add: d2 set_path_data)
  then have memlive: "matches (notDeleted cfg) (data this2)"
    by (simp add: matches_notDeleted)
  \<comment> \<open>a restore of any document\<close>
  have a0: "map_of (data (set_path ?f BNull this0)) ?f = Some BNull"
    by (simp add: set_path_data)
  then have a1: "matches (notDeleted cfg) (data (set_path ?f BNull this0))"
    by (simp add: matches_notDeleted)
  have a2: "restore_method cfg this0 coll0 = Inr (r, c) \<longrightarrow>
            map_of (data r) ?f = Some BNull
            \<and> (isNew this0 \<or> ?f \<in> set (modified this0) \<or> map_of (data this0) ?f \<noteq> Some BNull
               \<longrightarrow> (\<exists>s. List.find (same_id (data this0)) c = Some s \<and> map_of s ?f = Some BNull))"
  proof
    assume "restore_method cfg this0 coll0 = Inr (r, c)"
    then have sv: "save_with [] (\<lambda>d. d) (set_path ?f BNull this0) coll0 = Inr (r, c)"
      by (simp add: restore_method_def)
    then have "data r = data (set_path ?f BNull this0)"
      by (auto simp add: save_with_def required_ok_def Let_def split: if_splits)
    then have r: "map_of (data r) ?f = Some BNull"
      by (simp add: set_path_data)
    have "isNew this0 \<or> ?f \<in> set (modified this0) \<or> map_of (data this0) ?f \<noteq> Some BNull
        \<longrightarrow> (\<exists>s. List.find (same_id (data this0)) c = Some s \<and> map_of s ?f = Some BNull)"
    proof
      assume "isNew this0 \<or> ?f \<in> set (modified this0) \<or> map_of (data this0) ?f \<noteq> Some BNull"
      then have "isNew (set_path ?f BNull this0) \<or> ?f \<in> set (modified (set_path ?f BNull this0))"
        by (rule set_path_dirty)
      from save_plain_stored [OF sv this]
      show "\<exists>s. List.find (same_id (data this0)) c = Some s \<and> map_of s ?f = Some BNull"
        by (auto simp add: id_set set_path_data)
    qed
    with r show "map_of (data r) ?f = Some BNull
            \<and> (isNew this0 \<or> ?f \<in> set (modified this0) \<or> map_of (data this0) ?f \<noteq> Some BNull
               \<longrightarrow> (\<exists>s. List.find (same_id (data this0)) c = Some s \<and> map_of s ?f = Some BNull))"
      by simp
  qed
  from mem2 memlive s2 live2 vis hidden a0 a1 a2 show ?thesis
    by blast
qed

theorem C8_restore_visible_witness:
  "List.find (same_id [(''_id'', BNum 1), (''name'', BStr ''John'')])
       [[(''_id'', BNum 1), (''name'', BStr ''Johnny''), (''deletedAt'', BNull)],
        [(''_id'', BNum 2)]]
     = Some [(''_id'', BNum 1), (''name'', BStr ''Johnny''), (''deletedAt'', BNull)]
   \<and> [(''_id'', BNum 1), (''name'', BStr ''Johnny''), (''deletedAt'', BNull)]
     \<in> set (Model_find opts
          \<lparr>op = ''find'', conditions = [FieldCond ''name'' (Equals (BStr ''Johnny''))],
           options = \<lparr>opt_withDeleted = None, opt_onlyDeleted = None\<rparr>, update_set = []\<rparr>
          [[(''_id'', BNum 1), (''name'', BStr ''Johnny''), (''deletedAt'', BNull)],
           [(''_id'', BNum 2)]])
   \<and> [(''_id'', BNum 1), (''name'', BStr ''Johnny''), (''deletedAt'', BNum 1700000000)]
     \<notin> set (Model_find opts
          \<lparr>op = ''find'', conditions = [FieldCond ''name'' (Equals (BStr ''Johnny''))],
           options = \<lparr>opt_withDeleted = None, opt_onlyDeleted = None\<rparr>, update_set = []\<rparr>
          [[(''_id'', BNum 1), (''name'', BStr ''Johnny''), (''deletedAt'', BNum 1700000000)],
           [(''_id'', BNum 2)]])"
proof -
  let ?q = "\<lparr>op = ''find'', conditions = [FieldCond ''name'' (Equals (BStr ''Johnny''))],
           options = \<lparr>opt_withDeleted = None, opt_onlyDeleted = None\<rparr>, update_set = []\<rparr>"
  have mode: "defaultFilter opts = ''exclude''" and fld: "field opts \<noteq> ''_id''"
    by (simp_all add: opts_def)
  have nw: "opt_withDeleted (options ?q) \<noteq> Some True"
    and no: "opt_onlyDeleted (options ?q) \<noteq> Some True"
    by simp_all
  have del: "softDelete_method opts 1700000000999
       \<lparr>isNew = False, data = [(''_id'', BNum 1), (''name'', BStr ''John'')], modified = []\<rparr>
       [[(''_id'', BNum 1), (''name'', BStr ''Johnny'')], [(''_id'', BNum 2)]]
     = Inr (\<lparr>isNew = False,
             data = [(''_id'', BNum 1), (''name'', BStr ''John''), (''deletedAt'', BNum 1700000000)],
             modified = []\<rparr>,
            [[(''_id'', BNum 1), (''name'', BStr ''Johnny''), (''deletedAt'', BNum 1700000000)],
             [(''_id'', BNum 2)]])"
    by code_simp
  have res: "restore_method opts
       \<lparr>isNew = False,
        data = [(''_id'', BNum 1), (''name'', BStr ''John''), (''deletedAt'', BNum 1700000000)],
        modified = []\<rparr>
       [[(''_id'', BNum 1), (''name'', BStr ''Johnny''), (''deletedAt'', BNum 1700000000)],
        [(''_id'', BNum 2)]]
     = Inr (\<lparr>isNew = False,
             data = [(''_id'', BNum 1), (''name'', BStr ''John''), (''deletedAt'', BNull)],
             modified = []\<rparr>,
            [[(''_id'', BNum 1), (''name'', BStr ''Johnny''), (''deletedAt'', BNull)],
             [(''_id'', BNum 2)]])"
    by code_simp
  have t: "generateUnixTime 1700000000999 = 1700000000"
    by (simp add: generateUnixTime_def)
  show ?thesis
    using C8_restore_visible [OF mode nw no fld del res]
    by (simp add: same_id_def methods_def opts_def matches_def t)
qed

section \<open>The bulk statics\<close>

text \<open>
  The statics call \<open>updateMany\<close> with the caller's filter and no options, and \<open>updateMany\<close>
  is one of the hooked operations: under the plugin's configuration the update runs with
  \<open>notDeleted()\<close> added to its filter, so it passes over every record whose marker is a
  number.
\<close>

lemma bulk_filter_default:
  "conditions (pre_query opts
      \<lparr>op = ''updateMany'', conditions = f,
       options = \<lparr>opt_withDeleted = None, opt_onlyDeleted = None\<rparr>, update_set = upd\<rparr>)
   = (if f = [] then notDeleted opts else [AndOf [f, notDeleted opts]])"
  by (simp add: pre_query_def methods_def conditions_apply_hook truthy_def opts_def)

lemma Model_updateMany_skips_deleted:
  assumes "map_of d ''deletedAt'' = Some (BNum n)"
  shows "Model_updateMany opts f upd (xs @ d # ys)
       = Model_updateMany opts f upd xs @ d # Model_updateMany opts f upd ys"
proof -
  have "\<not> matches (notDeleted opts) d"
    using assms by (simp add: matches_notDeleted opts_def)
  then have "\<not> matches (if f = [] then notDeleted opts else [AndOf [f, notDeleted opts]]) d"
    by (simp add: matches_AndOf2)
  then show ?thesis
    by (simp add: Model_updateMany_def Let_def bulk_filter_default)
qed

text \<open>
  C1, evaluated on a collection with one soft-deleted admin: the bulk \<open>restore\<close> with the
  filter \<open>{ role: 'admin' }\<close> leaves the record soft-deleted, the bulk \<open>softDelete\<close> with
  no filter leaves its old deletion time, and the filter the update runs with is
  \<open>notDeleted()\<close> where the caller gave none.
\<close>

theorem C1_bulk_statics_skip_deleted:
  "restore_static opts (Some [FieldCond ''role'' (Equals (BStr ''admin''))])
       [[(''_id'', BNum 1), (''role'', BStr ''admin''), (''deletedAt'', BNum 1700000000)]]
     = [[(''_id'', BNum 1), (''role'', BStr ''admin''), (''deletedAt'', BNum 1700000000)]]
   \<and> softDelete_static opts 1800000000000 None
       [[(''_id'', BNum 1), (''role'', BStr ''admin''), (''deletedAt'', BNum 1700000000)]]
     = [[(''_id'', BNum 1), (''role'', BStr ''admin''), (''deletedAt'', BNum 1700000000)]]
   \<and> conditions (pre_query opts
        \<lparr>op = ''updateMany'', conditions = [],
         options = \<lparr>opt_withDeleted = None, opt_onlyDeleted = None\<rparr>,
         update_set = [(''deletedAt'', BNull)]\<rparr>)
     = notDeleted opts"
  by code_simp

text \<open>
  C2, evaluated on a collection of two live records: after two bulk \<open>softDelete({})\<close>
  calls, at 1700000000 and at 1800000000 seconds, both markers hold the time of the first
  call; the second call selects no record.
\<close>

theorem C2_second_bulk_softDelete_is_noop:
  "softDelete_static opts 1800000000000 None
       (softDelete_static opts 1700000000000 None [[(''_id'', BNum 1)], [(''_id'', BNum 2), (''deletedAt'', BNull)]])
     = [[(''_id'', BNum 1), (''deletedAt'', BNum 1700000000)],
        [(''_id'', BNum 2), (''deletedAt'', BNum 1700000000)]]"
  by code_simp

section \<open>The timestamp plugin on save and on queries\<close>

lemma timeSpanToUnix_save_requires_markers:
  assumes "map_of (data this) ''createdAt'' = None \<or> map_of (data this) ''updatedAt'' = None"
  shows "timeSpanToUnix_save t1 t2 this coll = Inl ValidationError"
  using assms
  by (auto simp add: timeSpanToUnix_save_def save_with_def required_ok_def
      timeSpanToUnix_required_def)

lemma pre_save_stamps:
  "map_of (data (pre_save t1 t2 this)) ''updatedAt'' = Some (BNum (generateUnixTime t2))
   \<and> map_of (data (pre_save t1 t2 this)) ''createdAt''
       = (if isNew this then Some (BNum (generateUnixTime t1))
          else map_of (data this) ''createdAt'')"
  by (simp add: pre_save_def Let_def set_path_data)

lemma updateMany_not_stamped:
  "map_of (update_set (timeSpanToUnix_pre_query 1700000000000
       \<lparr>op = ''updateMany'', conditions = [FieldCond ''role'' (Equals (BStr ''admin''))],
        options = \<lparr>opt_withDeleted = None, opt_onlyDeleted = None\<rparr>,
        update_set = [(''title'', BStr ''Updated Title'')]\<rparr>)) ''updatedAt'' = None"
  by (simp add: timeSpanToUnix_pre_query_def)

text \<open>
  C9, evaluated on the new record of the plugin's own usage example, a document with a
  title and a content and no markers: the hook before \<open>save\<close> would write both markers,
  but both paths are required and the required paths are validated before the hook runs,
  so the save is rejected and neither the creation marker nor the update marker is
  written.
\<close>

theorem C9_new_record_save_rejected:
  "timeSpanToUnix_save 1700000000999 1700000001000
       \<lparr>isNew = True,
        data = [(''_id'', BNum 1), (''title'', BStr ''Hello World''),
                (''content'', BStr ''Content here'')],
        modified = [''title'', ''content'']\<rparr> []
     = Inl ValidationError"
  by code_simp

end
